theory Spec2Isabelle
  imports Complex_Main
begin

section \<open>Python values and exceptions\<close>

text \<open>
  The values that \<^verbatim>\<open>response.json()\<close> can return and that the program passes around.
  A dict is an association list read with \<open>map_of\<close>; a JSON object has string keys only.
  A Python float is carried as a real number: the program copies floats and never computes
  with them.
\<close>

datatype pyval =
    PNone
  | PBool bool
  | PInt int
  | PFloat real
  | PStr string
  | PList "pyval list"
  | PDict "(string \<times> pyval) list"

text \<open>
  The exceptions that can arise, by class. \<open>JSONDecodeError\<close> is the one of the requests
  library (version 2.27 and later), which derives from both \<open>RequestException\<close> and
  \<open>ValueError\<close>;
  \<open>Timeout\<close> derives from \<open>RequestException\<close>; \<open>IntegrityError\<close>,
  \<open>InterfaceError\<close> and \<open>OperationalError\<close> derive from \<open>sqlite3.Error\<close>.
\<close>

datatype exn =
    ValueError
  | AttributeError
  | IndexError
  | KeyError
  | TypeError
  | OverflowError
  | Timeout
  | RequestException string
  | JSONDecodeError
  | IntegrityError
  | InterfaceError
  | OperationalError

fun is_Timeout :: "exn \<Rightarrow> bool" where
  "is_Timeout Timeout = True"
| "is_Timeout _ = False"

fun is_RequestException :: "exn \<Rightarrow> bool" where
  "is_RequestException Timeout = True"
| "is_RequestException (RequestException _) = True"
| "is_RequestException JSONDecodeError = True"
| "is_RequestException _ = False"

fun is_ValueError :: "exn \<Rightarrow> bool" where
  "is_ValueError ValueError = True"
| "is_ValueError JSONDecodeError = True"
| "is_ValueError _ = False"

fun is_sqlite3_Error :: "exn \<Rightarrow> bool" where
  "is_sqlite3_Error IntegrityError = True"
| "is_sqlite3_Error InterfaceError = True"
| "is_sqlite3_Error OperationalError = True"
| "is_sqlite3_Error _ = False"

text \<open>Sequencing of two steps of which the first may raise.\<close>

definition bindE :: "exn + 'a \<Rightarrow> ('a \<Rightarrow> exn + 'b) \<Rightarrow> exn + 'b" where
  "bindE m f = (case m of Inl e \<Rightarrow> Inl e | Inr x \<Rightarrow> f x)"

text \<open>Truth value of an object, as \<^verbatim>\<open>if dados_raw:\<close> tests it.\<close>

fun truthy :: "pyval \<Rightarrow> bool" where
  "truthy PNone = False"
| "truthy (PBool b) = b"
| "truthy (PInt i) = (i \<noteq> 0)"
| "truthy (PFloat x) = (x \<noteq> 0)"
| "truthy (PStr s) = (s \<noteq> [])"
| "truthy (PList xs) = (xs \<noteq> [])"
| "truthy (PDict kvs) = (kvs \<noteq> [])"

text \<open>\<^verbatim>\<open>x.get(k, d)\<close>: only a dict has the method.\<close>

fun py_get :: "pyval \<Rightarrow> string \<Rightarrow> pyval \<Rightarrow> exn + pyval" where
  "py_get (PDict kvs) k d = Inr (case map_of kvs k of None \<Rightarrow> d | Some v \<Rightarrow> v)"
| "py_get _ k d = Inl AttributeError"

text \<open>
  \<^verbatim>\<open>x[0]\<close>: the first element of a list, the first character of a str; a dict decoded from
  JSON has no key \<open>0\<close>; the other values are not subscriptable.
\<close>

fun py_item0 :: "pyval \<Rightarrow> exn + pyval" where
  "py_item0 (PList []) = Inl IndexError"
| "py_item0 (PList (x # xs)) = Inr x"
| "py_item0 (PStr []) = Inl IndexError"
| "py_item0 (PStr (c # cs)) = Inr (PStr [c])"
| "py_item0 (PDict kvs) = Inl KeyError"
| "py_item0 _ = Inl TypeError"

section \<open>Record Normalizer\<close>

text \<open>The dict built by \<open>estruturar_dados\<close>: thirteen fixed keys.\<close>

record dados =
  cidade :: pyval
  pais :: pyval
  temperatura :: pyval
  sensacao_termica :: pyval
  temp_minima :: pyval
  temp_maxima :: pyval
  pressao :: pyval
  umidade :: pyval
  descricao :: pyval
  velocidade_vento :: pyval
  nuvens :: pyval
  data_hora :: pyval
  timestamp_api :: pyval

text \<open>
  \<open>estruturar_dados\<close>: the entries of the dict display are evaluated in order and the first
  exception leaves the function. \<open>agora\<close> is the text that
  \<^verbatim>\<open>datetime.now().strftime('%Y-%m-%d %H:%M:%S')\<close> yields at the call.
\<close>

definition sub_get :: "pyval \<Rightarrow> string \<Rightarrow> string \<Rightarrow> exn + pyval" where
  "sub_get dados_raw k1 k2 = bindE (py_get dados_raw k1 (PDict [])) (\<lambda>obj. py_get obj k2 PNone)"

definition estruturar_dados :: "string \<Rightarrow> pyval \<Rightarrow> exn + dados" where
  "estruturar_dados agora dados_raw =
     bindE (py_get dados_raw ''name'' PNone) (\<lambda>v_cidade.
     bindE (sub_get dados_raw ''sys'' ''country'') (\<lambda>v_pais.
     bindE (sub_get dados_raw ''main'' ''temp'') (\<lambda>v_temperatura.
     bindE (sub_get dados_raw ''main'' ''feels_like'') (\<lambda>v_sensacao.
     bindE (sub_get dados_raw ''main'' ''temp_min'') (\<lambda>v_minima.
     bindE (sub_get dados_raw ''main'' ''temp_max'') (\<lambda>v_maxima.
     bindE (sub_get dados_raw ''main'' ''pressure'') (\<lambda>v_pressao.
     bindE (sub_get dados_raw ''main'' ''humidity'') (\<lambda>v_umidade.
     bindE (bindE (bindE (py_get dados_raw ''weather'' (PList [PDict []])) py_item0)
              (\<lambda>w. py_get w ''description'' PNone)) (\<lambda>v_descricao.
     bindE (sub_get dados_raw ''wind'' ''speed'') (\<lambda>v_vento.
     bindE (sub_get dados_raw ''clouds'' ''all'') (\<lambda>v_nuvens.
     bindE (py_get dados_raw ''dt'' PNone) (\<lambda>v_dt.
     Inr \<lparr> cidade = v_cidade, pais = v_pais, temperatura = v_temperatura,
           sensacao_termica = v_sensacao, temp_minima = v_minima, temp_maxima = v_maxima,
           pressao = v_pressao, umidade = v_umidade, descricao = v_descricao,
           velocidade_vento = v_vento, nuvens = v_nuvens, data_hora = PStr agora,
           timestamp_api = v_dt \<rparr>))))))))))))"

text \<open>The payload of the scenario of the specification.\<close>

definition campos_london :: "(string \<times> pyval) list" where
  "campos_london =
     [(''name'', PStr ''London''),
      (''sys'', PDict [(''country'', PStr ''GB'')]),
      (''main'', PDict [(''temp'', PFloat 15), (''humidity'', PInt 80)]),
      (''weather'', PList [PDict [(''description'', PStr ''light rain'')]]),
      (''wind'', PDict []),
      (''clouds'', PDict []),
      (''dt'', PInt 1700000000)]"

definition carga_london :: pyval where
  "carga_london = PDict campos_london"

section \<open>Store\<close>

text \<open>
  The values SQLite stores. A row keeps each value as it was bound; the conversions between
  numeric and text storage classes that a column's declared type may apply are outside the
  model (they never touch NULL, and they leave a text in a TEXT column as it is).
\<close>

datatype sqlval = SNull | SInt int | SReal real | SText string

datatype sqltipo = INTEGER | TEXT | REAL

record coluna =
  nome :: string
  tipo :: sqltipo
  nao_nulo :: bool

text \<open>
  A table with the key \<^verbatim>\<open>id INTEGER PRIMARY KEY AUTOINCREMENT\<close>: the declared columns
  after the key, the committed rows in the order of their insertion (row id, then one value
  per column), and the largest row id ever handed out, which SQLite keeps in
  \<^verbatim>\<open>sqlite_sequence\<close>. The state of the file \<^verbatim>\<open>projeto_rpa.db\<close> is the table
  \<^verbatim>\<open>dados_clima\<close>, or \<open>None\<close> while the table does not exist.
\<close>

record tabela =
  colunas :: "coluna list"
  linhas :: "(int \<times> sqlval list) list"
  seq :: int

definition col :: "string \<Rightarrow> sqltipo \<Rightarrow> bool \<Rightarrow> coluna" where
  "col n t b = \<lparr> nome = n, tipo = t, nao_nulo = b \<rparr>"

text \<open>The columns of the CREATE TABLE statement of \<open>criar_banco_dados\<close>, after \<open>id\<close>.\<close>

definition colunas_dados_clima :: "coluna list" where
  "colunas_dados_clima =
     [col ''cidade'' TEXT True,
      col ''pais'' TEXT False,
      col ''temperatura'' REAL False,
      col ''sensacao_termica'' REAL False,
      col ''temp_minima'' REAL False,
      col ''temp_maxima'' REAL False,
      col ''pressao'' INTEGER False,
      col ''umidade'' INTEGER False,
      col ''descricao'' TEXT False,
      col ''velocidade_vento'' REAL False,
      col ''nuvens'' INTEGER False,
      col ''data_hora'' TEXT False,
      col ''timestamp_api'' INTEGER False]"

text \<open>\<^verbatim>\<open>CREATE TABLE IF NOT EXISTS\<close>: an existing table is left as it is.\<close>

definition create_table_if_not_exists :: "coluna list \<Rightarrow> tabela option \<Rightarrow> tabela option" where
  "create_table_if_not_exists cols db =
     (case db of
        Some t \<Rightarrow> Some t
      | None \<Rightarrow> Some \<lparr> colunas = cols, linhas = [], seq = 0 \<rparr>)"

text \<open>
  A statement is compiled against the schema before its parameters are bound: a missing table
  or an unknown column is an OperationalError.
\<close>

definition prepare_statement :: "string list \<Rightarrow> tabela option \<Rightarrow> exn + unit" where
  "prepare_statement nomes db =
     (case db of
        None \<Rightarrow> Inl OperationalError
      | Some t \<Rightarrow>
          if \<not> set nomes \<subseteq> set (map nome (colunas t)) then Inl OperationalError
          else Inr ())"

text \<open>An SQLite INTEGER is a signed 64-bit number.\<close>

definition cabe_int64 :: "int \<Rightarrow> bool" where
  "cabe_int64 i \<longleftrightarrow> - (2 ^ 63) \<le> i \<and> i < 2 ^ 63"

text \<open>
  Binding one Python value to a \<^verbatim>\<open>?\<close> of a statement, as the sqlite3 module does: a
  bool is an int; an int outside 64 bits raises OverflowError; a list or a dict is not a
  supported type (InterfaceError, ProgrammingError in later versions of the module: both are
  \<open>sqlite3.Error\<close>).
\<close>

fun bind_param :: "pyval \<Rightarrow> exn + sqlval" where
  "bind_param PNone = Inr SNull"
| "bind_param (PBool b) = Inr (SInt (if b then 1 else 0))"
| "bind_param (PInt i) = (if cabe_int64 i then Inr (SInt i) else Inl OverflowError)"
| "bind_param (PFloat x) = Inr (SReal x)"
| "bind_param (PStr s) = Inr (SText s)"
| "bind_param (PList xs) = Inl InterfaceError"
| "bind_param (PDict kvs) = Inl InterfaceError"

text \<open>The parameters are bound from left to right; the first failure raises.\<close>

fun bind_params :: "pyval list \<Rightarrow> exn + sqlval list" where
  "bind_params [] = Inr []"
| "bind_params (v # vs) =
     bindE (bind_param v) (\<lambda>x. bindE (bind_params vs) (\<lambda>xs. Inr (x # xs)))"

text \<open>AUTOINCREMENT: one more than the largest row id that ever existed in the table.\<close>

definition proximo_rowid :: "tabela \<Rightarrow> int" where
  "proximo_rowid t = fold max (map fst (linhas t)) (seq t) + 1"

text \<open>
  \<^verbatim>\<open>INSERT INTO dados_clima (nomes) VALUES (valores)\<close>, for a statement that leaves the key
  to AUTOINCREMENT (the program has no other). A missing table or an unknown column is an
  OperationalError; a column that is not named gets NULL; NULL in a NOT NULL column is an
  IntegrityError; a table whose row ids are used up is full (OperationalError). A statement
  that fails changes nothing.
\<close>

definition insert_into :: "string list \<Rightarrow> sqlval list \<Rightarrow> tabela option \<Rightarrow> exn + tabela option" where
  "insert_into nomes valores db =
     (case db of
        None \<Rightarrow> Inl OperationalError
      | Some t \<Rightarrow>
          if \<not> set nomes \<subseteq> set (map nome (colunas t)) then Inl OperationalError
          else
            let linha = map (\<lambda>c. case map_of (zip nomes valores) (nome c) of
                                    Some v \<Rightarrow> v | None \<Rightarrow> SNull) (colunas t)
            in if list_ex (\<lambda>(c, v). nao_nulo c \<and> v = SNull) (zip (colunas t) linha)
               then Inl IntegrityError
               else if \<not> cabe_int64 (proximo_rowid t) then Inl OperationalError
               else Inr (Some (t\<lparr> linhas := linhas t @ [(proximo_rowid t, linha)],
                                   seq := proximo_rowid t \<rparr>)))"

text \<open>The value of the named columns of one row.\<close>

definition projetar :: "coluna list \<Rightarrow> string list \<Rightarrow> sqlval list \<Rightarrow> sqlval list" where
  "projetar cols nomes linha =
     map (\<lambda>n. case map_of (zip (map nome cols) linha) n of Some v \<Rightarrow> v | None \<Rightarrow> SNull) nomes"

text \<open>
  \<^verbatim>\<open>SELECT nomes FROM dados_clima ORDER BY id DESC LIMIT n\<close>: the rows by descending row
  id; a negative limit is no limit.
\<close>

definition select_order_by_id_desc :: "string list \<Rightarrow> int \<Rightarrow> tabela option \<Rightarrow> exn + sqlval list list" where
  "select_order_by_id_desc nomes n db =
     (case db of
        None \<Rightarrow> Inl OperationalError
      | Some t \<Rightarrow>
          if \<not> set nomes \<subseteq> set (map nome (colunas t)) then Inl OperationalError
          else
            let ordenadas = rev (sort_key fst (linhas t));
                limitadas = (if n < 0 then ordenadas else take (nat n) ordenadas)
            in Inr (map (\<lambda>r. projetar (colunas t) nomes (snd r)) limitadas))"

section \<open>Console, program state and environment\<close>

text \<open>
  The console as a list of events. An event stands for a \<^verbatim>\<open>print\<close> of the program, with
  the values interpolated into the line; the two lines of the banner of \<open>main\<close> are the
  event \<open>Inicio\<close>, and the listing of \<open>consultar_dados_banco\<close> (heading, rules and one
  line for each row) is the event \<open>UltimosRegistros\<close>. How a number or a text is rendered
  (decimal digits, capital letters) is not modelled.
\<close>

datatype evento =
    Inicio
  | ApiKeyCarregada
  | BancoCriado
  | Processando string
  | Requisitando string
  | DadosObtidos int
  | ErroStatus int
  | Mensagem pyval
  | ErroTimeout
  | ErroRequisicao exn
  | Separador
  | Titulo pyval pyval
  | Campo string "pyval list"
  | DadosInseridos pyval
  | LinhaEmBranco
  | UltimosRegistros "sqlval list list"
  | Concluido
  | ArquivoBanco
  | ErroConfiguracao exn
  | ErroBanco exn
  | ErroInesperado exn
  | Fim

text \<open>
  The state the program changes: the database file, the console, the calls of
  \<^verbatim>\<open>requests.get\<close> so far (for each call the URL that the program hands over, and the URL
  of the request as the library prepares it for sending), and how many times a connection was
  opened and was closed.
\<close>

record estado =
  banco :: "tabela option"
  saida :: "evento list"
  pedidos :: "string list"
  enviados :: "string list"
  aberturas :: nat
  fechos :: nat

text \<open>
  What \<^verbatim>\<open>requests.get\<close> meets: a response with its status code and its body (\<open>None\<close>
  when the body is not JSON), no response within the timeout, or another failure of the
  transport.
\<close>

datatype resultado_http =
    Resposta int "pyval option"
  | SemResposta
  | FalhaTransporte string

text \<open>
  The world outside the program: the outcome of the \<open>n\<close>-th call of \<^verbatim>\<open>requests.get\<close>
  (counted from 0) for the URL that the program hands over, and the wall-clock text read after
  \<open>n\<close> calls.
\<close>

record mundo =
  http :: "nat \<Rightarrow> string \<Rightarrow> resultado_http"
  relogio :: "nat \<Rightarrow> string"

definition imprimir :: "evento list \<Rightarrow> estado \<Rightarrow> estado" where
  "imprimir es s = s\<lparr> saida := saida s @ es \<rparr>"

section \<open>Config Loader\<close>

definition api_key_embutida :: string where
  "api_key_embutida = ''3a5eb8cc097c4eb15bf47deb31c0f8a6''"

definition carregar_configuracoes :: "estado \<Rightarrow> (exn + string) \<times> estado" where
  "carregar_configuracoes s =
     (if api_key_embutida = [] then (Inl ValueError, s)
      else (Inr api_key_embutida, imprimir [ApiKeyCarregada] s))"

section \<open>Weather Client\<close>

text \<open>The f-string of the URL.\<close>

definition montar_url :: "string \<Rightarrow> string \<Rightarrow> string" where
  "montar_url nome_cidade api_key =
     ''https://api.openweathermap.org/data/2.5/weather?q='' @ nome_cidade @
     ''&appid='' @ api_key @ ''&units=metric&lang=pt_br''"

text \<open>
  What the requests library (2.32) does to the URL before it sends the request, for a URL of
  the endpoint of the program, which has nothing to quote in its scheme, host and path (the
  program calls \<^verbatim>\<open>requests.get\<close> on no other URL). A string is the sequence of the bytes of
  its UTF-8 encoding.
\<close>

definition alnum :: string where
  "alnum = ''abcdefghijklmnopqrstuvwxyzABCDEFGHIJKLMNOPQRSTUVWXYZ0123456789''"

definition UNRESERVED_SET :: string where
  "UNRESERVED_SET = alnum @ ''-._~''"

text \<open>The characters that urllib3 leaves as they are in a query and in a fragment.\<close>

definition QUERY_CHARS :: string where
  "QUERY_CHARS =
     UNRESERVED_SET @
     [CHR ''!'', CHR ''$'', CHR ''&'', CHR 0x27, CHR ''('', CHR '')'', CHR ''*'', CHR ''+'',
      CHR '','', CHR '';'', CHR ''='', CHR '':'', CHR ''@'', CHR ''/'', CHR ''?'']"

definition safe_with_percent :: string where
  "safe_with_percent =
     [CHR ''!'', CHR ''#'', CHR ''$'', CHR ''%'', CHR ''&'', CHR 0x27, CHR ''('', CHR '')'',
      CHR ''*'', CHR ''+'', CHR '','', CHR ''/'', CHR '':'', CHR '';'', CHR ''='', CHR ''?'',
      CHR ''@'', CHR ''['', CHR '']'', CHR ''~'']"

definition safe_without_percent :: string where
  "safe_without_percent =
     [CHR ''!'', CHR ''#'', CHR ''$'', CHR ''&'', CHR 0x27, CHR ''('', CHR '')'', CHR ''*'',
      CHR ''+'', CHR '','', CHR ''/'', CHR '':'', CHR '';'', CHR ''='', CHR ''?'', CHR ''@'',
      CHR ''['', CHR '']'', CHR ''~'']"

definition is_hex :: "char \<Rightarrow> bool" where
  "is_hex c \<longleftrightarrow> c \<in> set ''0123456789abcdefABCDEF''"

text \<open>The value of a hexadecimal digit, and the upper-case form of a character.\<close>

definition hexval :: "char \<Rightarrow> nat" where
  "hexval c =
     (let n = of_char c
      in if 48 \<le> n \<and> n \<le> 57 then n - 48
         else if 65 \<le> n \<and> n \<le> 70 then n - 55
         else n - 87)"

definition upper :: "char \<Rightarrow> char" where
  "upper c =
     (if 97 \<le> (of_char c :: nat) \<and> (of_char c :: nat) \<le> 122
      then char_of (of_char c - (32::nat)) else c)"

text \<open>The escape \<^verbatim>\<open>%XX\<close> of a byte, with upper-case digits.\<close>

definition percent_hex :: "char \<Rightarrow> string" where
  "percent_hex c =
     [CHR ''%'', ''0123456789ABCDEF'' ! (of_char c div 16),
      ''0123456789ABCDEF'' ! (of_char c mod 16)]"

text \<open>
  The first step of \<^verbatim>\<open>_encode_invalid_chars\<close>: the substitution over the matches of
  \<^verbatim>\<open>%[a-fA-F0-9]{2}\<close>, from left to right, which puts the digits of each escape in upper
  case, and the number of the matches.
\<close>

fun upper_escapes :: "string \<Rightarrow> string" where
  "upper_escapes (c # h1 # h2 # cs) =
     (if c = CHR ''%'' \<and> is_hex h1 \<and> is_hex h2
      then c # upper h1 # upper h2 # upper_escapes cs
      else c # upper_escapes (h1 # h2 # cs))"
| "upper_escapes cs = cs"

fun count_escapes :: "string \<Rightarrow> nat" where
  "count_escapes (c # h1 # h2 # cs) =
     (if c = CHR ''%'' \<and> is_hex h1 \<and> is_hex h2
      then Suc (count_escapes cs)
      else count_escapes (h1 # h2 # cs))"
| "count_escapes cs = 0"

text \<open>
  \<^verbatim>\<open>_encode_invalid_chars\<close> of urllib3: a byte that is not allowed becomes its escape; a
  \<^verbatim>\<open>%\<close> stays only when every \<^verbatim>\<open>%\<close> of the component starts an escape.
\<close>

definition encode_invalid_chars :: "string \<Rightarrow> string \<Rightarrow> string" where
  "encode_invalid_chars component allowed_chars =
     (let comp = upper_escapes component;
          is_percent_encoded = (count_escapes component = count_list comp (CHR ''%''))
      in concat (map (\<lambda>b. if (is_percent_encoded \<and> b = CHR ''%'') \<or> b \<in> set allowed_chars
                            then [b] else percent_hex b) comp))"

text \<open>
  \<^verbatim>\<open>unquote_unreserved\<close> of requests: an escape of an unreserved character becomes the
  character; \<open>None\<close> stands for InvalidURL, raised on a \<^verbatim>\<open>%\<close> that is followed by two
  letters or digits that are not hexadecimal. The URL is ASCII when the function is applied,
  since the encoding before it leaves no other byte.
\<close>

fun unquote_unreserved :: "string \<Rightarrow> string option" where
  "unquote_unreserved (c # h1 # h2 # cs) =
     (if c = CHR ''%'' \<and> h1 \<in> set alnum \<and> h2 \<in> set alnum then
        (if is_hex h1 \<and> is_hex h2 then
           (if char_of (hexval h1 * 16 + hexval h2) \<in> set UNRESERVED_SET
            then map_option (Cons (char_of (hexval h1 * 16 + hexval h2)))
                   (unquote_unreserved cs)
            else map_option (Cons c) (unquote_unreserved (h1 # h2 # cs)))
         else None)
      else map_option (Cons c) (unquote_unreserved (h1 # h2 # cs)))"
| "unquote_unreserved cs = Some cs"

text \<open>\<^verbatim>\<open>urllib.parse.quote\<close>: letters, digits, \<^verbatim>\<open>_.-~\<close> and the safe characters stay.\<close>

definition quote :: "string \<Rightarrow> string \<Rightarrow> string" where
  "quote s safe =
     concat (map (\<lambda>b. if b \<in> set (alnum @ ''_.-~'' @ safe) then [b] else percent_hex b) s)"

definition requote_uri :: "string \<Rightarrow> string" where
  "requote_uri uri =
     (case unquote_unreserved uri of
        Some u \<Rightarrow> quote u safe_with_percent
      | None \<Rightarrow> quote uri safe_without_percent)"

definition endpoint :: string where
  "endpoint = ''https://api.openweathermap.org/data/2.5/weather''"

text \<open>
  \<^verbatim>\<open>PreparedRequest.prepare_url\<close>: the part after the \<^verbatim>\<open>?\<close> is split at its first
  \<^verbatim>\<open>#\<close> into query and fragment, each is encoded where it is not empty, the URL is put
  together again and re-quoted.
\<close>

definition prepare_url :: "string \<Rightarrow> string" where
  "prepare_url url =
     (if take (Suc (length endpoint)) url = endpoint @ ''?'' then
        (let resto = drop (Suc (length endpoint)) url;
             query = takeWhile (\<lambda>c. c \<noteq> CHR ''#'') resto;
             fragment = drop (Suc (length query)) resto;
             query' = (if query = [] then []
                       else CHR ''?'' # encode_invalid_chars query QUERY_CHARS);
             fragment' = (if fragment = [] then []
                          else CHR ''#'' # encode_invalid_chars fragment QUERY_CHARS)
         in requote_uri (endpoint @ query' @ fragment'))
      else url)"

text \<open>
  \<^verbatim>\<open>requests.get(url, timeout=10)\<close>: the call is recorded with the URL as the program hands
  it over and with the URL of the prepared request, and the world decides its outcome.
\<close>

definition requests_get :: "mundo \<Rightarrow> string \<Rightarrow> estado \<Rightarrow> (exn + int \<times> pyval option) \<times> estado" where
  "requests_get w url s =
     (case http w (length (pedidos s)) url of
        Resposta status corpo \<Rightarrow> Inr (status, corpo)
      | SemResposta \<Rightarrow> Inl Timeout
      | FalhaTransporte m \<Rightarrow> Inl (RequestException m),
      s\<lparr> pedidos := pedidos s @ [url], enviados := enviados s @ [prepare_url url] \<rparr>)"

definition response_json :: "pyval option \<Rightarrow> exn + pyval" where
  "response_json corpo = (case corpo of None \<Rightarrow> Inl JSONDecodeError | Some v \<Rightarrow> Inr v)"

text \<open>
  The two \<^verbatim>\<open>except\<close> clauses of \<open>obter_dados_clima\<close>, in their order; an exception of
  another class leaves the function.
\<close>

definition obter_dados_clima_except :: "exn \<Rightarrow> estado \<Rightarrow> (exn + pyval) \<times> estado" where
  "obter_dados_clima_except e s =
     (if is_Timeout e then (Inr PNone, imprimir [ErroTimeout] s)
      else if is_RequestException e then (Inr PNone, imprimir [ErroRequisicao e] s)
      else (Inl e, s))"

definition obter_dados_clima :: "mundo \<Rightarrow> string \<Rightarrow> string \<Rightarrow> estado \<Rightarrow> (exn + pyval) \<times> estado" where
  "obter_dados_clima w nome_cidade api_key s =
     (let url = montar_url nome_cidade api_key;
          s1 = imprimir [Requisitando nome_cidade] s
      in case requests_get w url s1 of
           (Inl e, s2) \<Rightarrow> obter_dados_clima_except e s2
         | (Inr (status, corpo), s2) \<Rightarrow>
             if status = 200 then
               (let s3 = imprimir [DadosObtidos status] s2
                in case response_json corpo of
                     Inl e \<Rightarrow> obter_dados_clima_except e s3
                   | Inr v \<Rightarrow> (Inr v, s3))
             else
               (let s3 = imprimir [ErroStatus status] s2
                in case bindE (response_json corpo)
                          (\<lambda>j. py_get j ''message'' (PStr ''Erro desconhecido'')) of
                     Inl e \<Rightarrow> obter_dados_clima_except e s3
                   | Inr m \<Rightarrow> (Inr PNone, imprimir [Mensagem m] s3)))"

section \<open>Store operations of the program\<close>

text \<open>
  \<open>criar_banco_dados\<close>: connect, create the table if it is absent, commit. The connection
  it returns stands for the one database of the state. Failures of the file system are not
  modelled.
\<close>

definition criar_banco_dados :: "estado \<Rightarrow> estado" where
  "criar_banco_dados s =
     imprimir [BancoCriado]
       (s\<lparr> banco := create_table_if_not_exists colunas_dados_clima (banco s),
           aberturas := aberturas s + 1 \<rparr>)"

definition colunas_insert :: "string list" where
  "colunas_insert =
     [''cidade'', ''pais'', ''temperatura'', ''sensacao_termica'', ''temp_minima'',
      ''temp_maxima'', ''pressao'', ''umidade'', ''descricao'', ''velocidade_vento'',
      ''nuvens'', ''data_hora'', ''timestamp_api'']"

definition parametros :: "dados \<Rightarrow> pyval list" where
  "parametros d =
     [cidade d, pais d, temperatura d, sensacao_termica d, temp_minima d, temp_maxima d,
      pressao d, umidade d, descricao d, velocidade_vento d, nuvens d, data_hora d,
      timestamp_api d]"

text \<open>
  The INSERT of \<open>inserir_dados_banco\<close> on the database alone: the statement is compiled, the
  parameters are bound, the statement runs.
\<close>

definition inserir_linha :: "dados \<Rightarrow> tabela option \<Rightarrow> exn + tabela option" where
  "inserir_linha d db =
     bindE (prepare_statement colunas_insert db) (\<lambda>u.
     bindE (bind_params (parametros d)) (\<lambda>valores. insert_into colunas_insert valores db))"

definition inserir_dados_banco :: "dados \<Rightarrow> estado \<Rightarrow> (exn + unit) \<times> estado" where
  "inserir_dados_banco d s =
     (case inserir_linha d (banco s) of
        Inl e \<Rightarrow> (Inl e, s)
      | Inr db \<Rightarrow> (Inr (), imprimir [DadosInseridos (cidade d)] (s\<lparr> banco := db \<rparr>)))"

text \<open>
  \<^verbatim>\<open>dados['descricao'].capitalize()\<close>: only a str has the method; the change of letter
  case is rendering.
\<close>

fun capitalize :: "pyval \<Rightarrow> exn + pyval" where
  "capitalize (PStr s) = Inr (PStr s)"
| "capitalize _ = Inl AttributeError"

definition exibir_dados_formatados :: "dados \<Rightarrow> estado \<Rightarrow> (exn + unit) \<times> estado" where
  "exibir_dados_formatados d s =
     (let s1 = imprimir
                 [Separador, Titulo (cidade d) (pais d), Separador,
                  Campo ''Temperatura'' [temperatura d],
                  Campo ''Sensacao Termica'' [sensacao_termica d],
                  Campo ''Min/Max'' [temp_minima d, temp_maxima d],
                  Campo ''Umidade'' [umidade d],
                  Campo ''Pressao'' [pressao d]] s
      in case capitalize (descricao d) of
           Inl e \<Rightarrow> (Inl e, s1)
         | Inr t \<Rightarrow>
             (Inr (), imprimir
                        [Campo ''Descricao'' [t],
                         Campo ''Velocidade do Vento'' [velocidade_vento d],
                         Campo ''Nebulosidade'' [nuvens d],
                         Campo ''Data/Hora da Consulta'' [data_hora d],
                         Separador] s1))"

text \<open>The rows that \<^verbatim>\<open>cursor.fetchall()\<close> returns in \<open>consultar_dados_banco\<close>.\<close>

definition registros_recentes :: "int \<Rightarrow> tabela option \<Rightarrow> exn + sqlval list list" where
  "registros_recentes limite db =
     bindE (prepare_statement [''cidade'', ''temperatura'', ''descricao'', ''data_hora''] db)
       (\<lambda>u. if cabe_int64 limite
            then select_order_by_id_desc
                   [''cidade'', ''temperatura'', ''descricao'', ''data_hora''] limite db
            else Inl OverflowError)"

definition consultar_dados_banco :: "int \<Rightarrow> estado \<Rightarrow> (exn + unit) \<times> estado" where
  "consultar_dados_banco limite s =
     (case registros_recentes limite (banco s) of
        Inl e \<Rightarrow> (Inl e, s)
      | Inr registros \<Rightarrow>
          (Inr (), if registros \<noteq> [] then imprimir [UltimosRegistros registros] s else s))"

section \<open>Orchestrator\<close>

definition cidades :: "string list" where
  "cidades = [''London'', ''Sao Paulo'', ''New York'', ''Tokyo'', ''Paris'']"

text \<open>The body of the \<^verbatim>\<open>for\<close> loop of \<open>main\<close>, for one city.\<close>

definition main_corpo :: "mundo \<Rightarrow> string \<Rightarrow> string \<Rightarrow> estado \<Rightarrow> (exn + unit) \<times> estado" where
  "main_corpo w api_key nome_cidade s =
     (case obter_dados_clima w nome_cidade api_key (imprimir [Processando nome_cidade] s) of
        (Inl e, s1) \<Rightarrow> (Inl e, s1)
      | (Inr dados_raw, s1) \<Rightarrow>
          if truthy dados_raw then
            (case estruturar_dados (relogio w (length (pedidos s1))) dados_raw of
               Inl e \<Rightarrow> (Inl e, s1)
             | Inr dados_estruturados \<Rightarrow>
                 (case exibir_dados_formatados dados_estruturados s1 of
                    (Inl e, s2) \<Rightarrow> (Inl e, s2)
                  | (Inr u, s2) \<Rightarrow>
                      (case inserir_dados_banco dados_estruturados s2 of
                         (Inl e, s3) \<Rightarrow> (Inl e, s3)
                       | (Inr u', s3) \<Rightarrow> (Inr (), imprimir [LinhaEmBranco] s3))))
          else (Inr (), imprimir [LinhaEmBranco] s1))"

text \<open>The loop: an exception in one iteration ends it.\<close>

fun main_laco :: "mundo \<Rightarrow> string \<Rightarrow> string list \<Rightarrow> estado \<Rightarrow> (exn + unit) \<times> estado" where
  "main_laco w api_key [] s = (Inr (), s)"
| "main_laco w api_key (nome_cidade # resto) s =
     (case main_corpo w api_key nome_cidade s of
        (Inl e, s1) \<Rightarrow> (Inl e, s1)
      | (Inr u, s1) \<Rightarrow> main_laco w api_key resto s1)"

text \<open>The \<^verbatim>\<open>try\<close> block of \<open>main\<close>, steps 1 to 6.\<close>

definition main_try :: "mundo \<Rightarrow> estado \<Rightarrow> (exn + unit) \<times> estado" where
  "main_try w s =
     (case carregar_configuracoes s of
        (Inl e, s1) \<Rightarrow> (Inl e, s1)
      | (Inr api_key, s1) \<Rightarrow>
          (case main_laco w api_key cidades (criar_banco_dados s1) of
             (Inl e, s2) \<Rightarrow> (Inl e, s2)
           | (Inr u, s2) \<Rightarrow>
               (case consultar_dados_banco 10 s2 of
                  (Inl e, s3) \<Rightarrow> (Inl e, s3)
                | (Inr u', s3) \<Rightarrow>
                    (Inr (), imprimir [Concluido, ArquivoBanco]
                               (s3\<lparr> fechos := fechos s3 + 1 \<rparr>)))))"

text \<open>
  \<open>main\<close>: the \<^verbatim>\<open>except\<close> clauses in their order, then \<^verbatim>\<open>finally\<close>, which prints a
  line and does nothing else.
\<close>

definition main :: "mundo \<Rightarrow> estado \<Rightarrow> estado" where
  "main w s =
     (case main_try w (imprimir [Inicio] s) of
        (Inr u, s1) \<Rightarrow> imprimir [Fim] s1
      | (Inl e, s1) \<Rightarrow>
          imprimir
            [if is_ValueError e then ErroConfiguracao e
             else if is_sqlite3_Error e then ErroBanco e
             else ErroInesperado e,
             Fim] s1)"

text \<open>The state before a run on a database file \<open>db\<close>.\<close>

definition estado_inicial :: "tabela option \<Rightarrow> estado" where
  "estado_inicial db =
     \<lparr> banco = db, saida = [], pedidos = [], enviados = [], aberturas = 0, fechos = 0 \<rparr>"

section \<open>Reachable databases, source paths and sample inputs\<close>

text \<open>
  The states of the database file that the program can produce: the file starts without the
  table, and the program changes it only through the CREATE TABLE of \<open>criar_banco_dados\<close>
  and the INSERT of \<open>inserir_dados_banco\<close>.
\<close>

inductive alcancavel :: "tabela option \<Rightarrow> bool" where
  inicial: "alcancavel None"
| criar: "alcancavel db \<Longrightarrow> alcancavel (create_table_if_not_exists colunas_dados_clima db)"
| inserir: "alcancavel db \<Longrightarrow> inserir_linha d db = Inr db' \<Longrightarrow> alcancavel db'"

text \<open>
  A source path of the provider's schema, as the specification writes it
  (\<^verbatim>\<open>sys.country\<close>, \<^verbatim>\<open>weather[0].description\<close>), and the value found at the end of
  the path, if the payload has the path.
\<close>

datatype passo = Chave string | Indice nat

fun caminho :: "passo list \<Rightarrow> pyval \<Rightarrow> pyval option" where
  "caminho [] v = Some v"
| "caminho (Chave k # ps) (PDict kvs) =
     (case map_of kvs k of None \<Rightarrow> None | Some v \<Rightarrow> caminho ps v)"
| "caminho (Indice i # ps) (PList xs) =
     (if i < length xs then caminho ps (xs ! i) else None)"
| "caminho (p # ps) v = None"

definition valor_ou_nulo :: "pyval option \<Rightarrow> pyval" where
  "valor_ou_nulo r = (case r of None \<Rightarrow> PNone | Some v \<Rightarrow> v)"

text \<open>The key is absent from the object, or its value is an object.\<close>

definition objeto_ou_ausente :: "(string \<times> pyval) list \<Rightarrow> string \<Rightarrow> bool" where
  "objeto_ou_ausente kvs k =
     (case map_of kvs k of None \<Rightarrow> True | Some (PDict d) \<Rightarrow> True | Some v \<Rightarrow> False)"

text \<open>The key is absent from the object, or its value is an array that starts with an object.\<close>

definition lista_de_objeto_ou_ausente :: "(string \<times> pyval) list \<Rightarrow> string \<Rightarrow> bool" where
  "lista_de_objeto_ou_ausente kvs k =
     (case map_of kvs k of
        None \<Rightarrow> True
      | Some (PList (PDict d # xs)) \<Rightarrow> True
      | Some v \<Rightarrow> False)"

text \<open>A payload whose sub-objects, where present, have the shape of the provider's schema.\<close>

definition bem_formada :: "(string \<times> pyval) list \<Rightarrow> bool" where
  "bem_formada kvs \<longleftrightarrow>
     objeto_ou_ausente kvs ''sys'' \<and> objeto_ou_ausente kvs ''main'' \<and>
     lista_de_objeto_ou_ausente kvs ''weather'' \<and>
     objeto_ou_ausente kvs ''wind'' \<and> objeto_ou_ausente kvs ''clouds''"

text \<open>A world in which every request meets the same outcome and the clock stands still.\<close>

definition mundo_constante :: "resultado_http \<Rightarrow> mundo" where
  "mundo_constante r = \<lparr> http = (\<lambda>n url. r), relogio = (\<lambda>n. ''2024-01-01 12:00:00'') \<rparr>"

text \<open>A payload with a description and without \<^verbatim>\<open>name\<close>, and what it normalizes to.\<close>

definition campos_sem_nome :: "(string \<times> pyval) list" where
  "campos_sem_nome = [(''weather'', PList [PDict [(''description'', PStr ''nublado'')]])]"

definition carga_sem_nome :: pyval where
  "carga_sem_nome = PDict campos_sem_nome"

definition leitura_sem_nome :: dados where
  "leitura_sem_nome =
     \<lparr> cidade = PNone, pais = PNone, temperatura = PNone, sensacao_termica = PNone,
       temp_minima = PNone, temp_maxima = PNone, pressao = PNone, umidade = PNone,
       descricao = PStr ''nublado'', velocidade_vento = PNone, nuvens = PNone,
       data_hora = PStr ''2024-01-01 12:00:00'', timestamp_api = PNone \<rparr>"



text \<open>What the payload of the scenario normalizes to on the still clock, and its row.\<close>

definition leitura_london :: dados where
  "leitura_london =
     \<lparr> cidade = PStr ''London'', pais = PStr ''GB'', temperatura = PFloat 15,
       sensacao_termica = PNone, temp_minima = PNone, temp_maxima = PNone,
       pressao = PNone, umidade = PInt 80, descricao = PStr ''light rain'',
       velocidade_vento = PNone, nuvens = PNone, data_hora = PStr ''2024-01-01 12:00:00'',
       timestamp_api = PInt 1700000000 \<rparr>"

definition linha_london :: "sqlval list" where
  "linha_london =
     [SText ''London'', SText ''GB'', SReal 15, SNull, SNull, SNull, SNull, SInt 80,
      SText ''light rain'', SNull, SNull, SText ''2024-01-01 12:00:00'', SInt 1700000000]"

text \<open>
  Three worlds: every request is answered 200 with the payload of the scenario; 200 with the
  payload without \<^verbatim>\<open>name\<close>; 404 with the JSON text \<^verbatim>\<open>"Not Found"\<close> as body.
\<close>

definition mundo_london :: mundo where
  "mundo_london = mundo_constante (Resposta 200 (Some carga_london))"

definition mundo_sem_nome :: mundo where
  "mundo_sem_nome = mundo_constante (Resposta 200 (Some carga_sem_nome))"

definition mundo_404 :: mundo where
  "mundo_404 = mundo_constante (Resposta 404 (Some (PStr ''Not Found'')))"

text \<open>The table as CREATE TABLE makes it, and the state after \<open>criar_banco_dados\<close> on a new file.\<close>

definition tabela_vazia :: tabela where
  "tabela_vazia = \<lparr> colunas = colunas_dados_clima, linhas = [], seq = 0 \<rparr>"

definition estado_criado :: estado where
  "estado_criado = criar_banco_dados (estado_inicial None)"

text \<open>A reading that has a city and a local timestamp and None elsewhere.\<close>

definition leitura :: "string \<Rightarrow> dados" where
  "leitura c =
     \<lparr> cidade = PStr c, pais = PNone, temperatura = PNone, sensacao_termica = PNone,
       temp_minima = PNone, temp_maxima = PNone, pressao = PNone, umidade = PNone,
       descricao = PNone, velocidade_vento = PNone, nuvens = PNone,
       data_hora = PStr ''2024-01-01 12:00:00'', timestamp_api = PNone \<rparr>"

text \<open>The row that \<open>leitura c\<close> becomes.\<close>

definition linha_de :: "string \<Rightarrow> sqlval list" where
  "linha_de c =
     [SText c, SNull, SNull, SNull, SNull, SNull, SNull, SNull, SNull, SNull, SNull,
      SText ''2024-01-01 12:00:00'', SNull]"

text \<open>The tables after the reading for A, and after the readings for A and B.\<close>

definition tabela_a :: tabela where
  "tabela_a = \<lparr> colunas = colunas_dados_clima, linhas = [(1, linha_de ''A'')], seq = 1 \<rparr>"

definition tabela_ab :: tabela where
  "tabela_ab =
     \<lparr> colunas = colunas_dados_clima,
       linhas = [(1, linha_de ''A''), (2, linha_de ''B'')],
       seq = 2 \<rparr>"

text \<open>The table after readings for A, B and C were inserted in this order.\<close>

definition tabela_abc :: tabela where
  "tabela_abc =
     \<lparr> colunas = colunas_dados_clima,
       linhas = [(1, linha_de ''A''), (2, linha_de ''B''), (3, linha_de ''C'')],
       seq = 3 \<rparr>"

text \<open>The four columns of the query of \<open>consultar_dados_banco\<close>, read from a stored row.\<close>

definition campos_consulta :: "int \<times> sqlval list \<Rightarrow> sqlval list" where
  "campos_consulta r = [snd r ! 0, snd r ! 2, snd r ! 8, snd r ! 11]"

text \<open>
  The invariant of the table of the program: it has the declared columns, the row ids grow
  in the order of insertion and none exceeds the recorded sequence, and every row has its
  thirteen values, the first of which (\<^verbatim>\<open>cidade\<close>) is not NULL.
\<close>

definition inv_tabela :: "tabela \<Rightarrow> bool" where
  "inv_tabela t \<longleftrightarrow>
     colunas t = colunas_dados_clima \<and> sorted_wrt (<) (map fst (linhas t)) \<and>
     (\<forall>r \<in> set (linhas t). fst r \<le> seq t \<and> length (snd r) = 13 \<and> snd r ! 0 \<noteq> SNull)"

definition inv_banco :: "tabela option \<Rightarrow> bool" where
  "inv_banco db = (case db of None \<Rightarrow> True | Some t \<Rightarrow> inv_tabela t)"

section \<open>Auxiliary lemmas\<close>

subsection \<open>Sequencing\<close>

lemma bindE_Inr: "bindE (Inr x) f = f x"
  by (simp add: bindE_def)

lemma bindE_Inl: "bindE (Inl e) f = Inl e"
  by (simp add: bindE_def)

lemma bindE_eq_Inr: "bindE m f = Inr y \<longleftrightarrow> (\<exists>x. m = Inr x \<and> f x = Inr y)"
  by (cases m) (simp_all add: bindE_def)

subsection \<open>The normalizer on a payload of the provider's shape\<close>

lemma sub_get_caminho:
  "objeto_ou_ausente kvs k1 \<Longrightarrow>
   sub_get (PDict kvs) k1 k2 = Inr (valor_ou_nulo (caminho [Chave k1, Chave k2] (PDict kvs)))"
  by (auto simp: objeto_ou_ausente_def sub_get_def bindE_def valor_ou_nulo_def
      split: option.splits pyval.splits)

lemma weather_caminho:
  "lista_de_objeto_ou_ausente kvs k \<Longrightarrow>
   bindE (bindE (py_get (PDict kvs) k (PList [PDict []])) py_item0) (\<lambda>w. py_get w k2 PNone)
     = Inr (valor_ou_nulo (caminho [Chave k, Indice 0, Chave k2] (PDict kvs)))"
  by (auto simp: lista_de_objeto_ou_ausente_def bindE_def valor_ou_nulo_def
      split: option.splits pyval.splits list.splits)

lemma topo_caminho:
  "py_get (PDict kvs) k PNone = Inr (valor_ou_nulo (caminho [Chave k] (PDict kvs)))"
  by (auto simp: valor_ou_nulo_def split: option.splits)

lemma estruturar_dados_cidade:
  "estruturar_dados agora (PDict kvs) = Inr d \<Longrightarrow> cidade d = valor_ou_nulo (map_of kvs ''name'')"
  by (auto simp: estruturar_dados_def bindE_eq_Inr valor_ou_nulo_def split: option.splits)

subsection \<open>Row ids\<close>

lemma fold_max_ge_init: "(a::int) \<le> fold max xs a"
  by (induction xs arbitrary: a) (auto intro: order_trans[OF max.cobounded2])

lemma fold_max_ge_elem: "(x::int) \<in> set xs \<Longrightarrow> x \<le> fold max xs a"
proof (induction xs arbitrary: a)
  case Nil
  then show ?case by simp
next
  case (Cons y ys)
  show ?case
  proof (cases "x = y")
    case True
    have "y \<le> max y a" by simp
    also have "\<dots> \<le> fold max ys (max y a)" by (rule fold_max_ge_init)
    finally show ?thesis using True by simp
  next
    case False
    with Cons show ?thesis by simp
  qed
qed

lemma rowid_novo: "r \<in> set (linhas t) \<Longrightarrow> fst r < proximo_rowid t"
proof -
  assume "r \<in> set (linhas t)"
  then have "fst r \<in> set (map fst (linhas t))" by simp
  then have "fst r \<le> fold max (map fst (linhas t)) (seq t)" by (rule fold_max_ge_elem)
  then show ?thesis by (simp add: proximo_rowid_def)
qed

subsection \<open>The INSERT of the program on the table of the program\<close>

lemma lista_13:
  "length (xs::'a list) = 13 \<Longrightarrow>
   \<exists>a0 a1 a2 a3 a4 a5 a6 a7 a8 a9 a10 a11 a12.
     xs = [a0, a1, a2, a3, a4, a5, a6, a7, a8, a9, a10, a11, a12]"
  by (simp add: eval_nat_numeral length_Suc_conv) blast

lemma linha_programa:
  "map (\<lambda>c. case map_of (zip colunas_insert
                           [a0, a1, a2, a3, a4, a5, a6, a7, a8, a9, a10, a11, a12]) (nome c) of
              Some v \<Rightarrow> v | None \<Rightarrow> SNull) colunas_dados_clima
   = [a0, a1, a2, a3, a4, a5, a6, a7, a8, a9, a10, a11, a12]"
  by (simp add: colunas_insert_def colunas_dados_clima_def col_def)

lemma nomes_programa: "set colunas_insert \<subseteq> set (map nome colunas_dados_clima)"
  by (simp add: colunas_insert_def colunas_dados_clima_def col_def)

lemma nao_nulo_programa:
  "list_ex (\<lambda>(c, v). nao_nulo c \<and> v = SNull)
     (zip colunas_dados_clima [a0, a1, a2, a3, a4, a5, a6, a7, a8, a9, a10, a11, a12])
   \<longleftrightarrow> a0 = SNull"
  by (simp add: colunas_dados_clima_def col_def)

lemma prepare_insert_programa:
  "colunas t = colunas_dados_clima \<Longrightarrow> prepare_statement colunas_insert (Some t) = Inr ()"
  using nomes_programa by (simp add: prepare_statement_def)

lemma insert_into_programa:
  assumes "colunas t = colunas_dados_clima" and "length vals = 13"
  shows "insert_into colunas_insert vals (Some t) =
     (if vals ! 0 = SNull then Inl IntegrityError
      else if \<not> cabe_int64 (proximo_rowid t) then Inl OperationalError
      else Inr (Some (t\<lparr> linhas := linhas t @ [(proximo_rowid t, vals)],
                         seq := proximo_rowid t \<rparr>)))"
proof -
  from lista_13[OF assms(2)] obtain a0 a1 a2 a3 a4 a5 a6 a7 a8 a9 a10 a11 a12
    where v: "vals = [a0, a1, a2, a3, a4, a5, a6, a7, a8, a9, a10, a11, a12]" by blast
  show ?thesis
    unfolding insert_into_def v
    by (simp only: option.case assms(1) nomes_programa linha_programa nao_nulo_programa
        Let_def not_True_eq_False if_False nth_Cons_0)
qed

lemma bind_params_length: "bind_params vs = Inr xs \<Longrightarrow> length xs = length vs"
  by (induction vs arbitrary: xs) (auto simp: bindE_eq_Inr)

lemma bind_params_hd: "bind_params (v # vs) = Inr xs \<Longrightarrow> bind_param v = Inr (xs ! 0)"
  by (auto simp: bindE_eq_Inr)

lemma parametros_length: "length (parametros d) = 13"
  by (simp add: parametros_def)

lemma inserir_linha_Inr:
  assumes "colunas t = colunas_dados_clima" and "inserir_linha d (Some t) = Inr db'"
  shows "\<exists>vals. bind_params (parametros d) = Inr vals \<and> length vals = 13 \<and>
           vals ! 0 \<noteq> SNull \<and> cabe_int64 (proximo_rowid t) \<and>
           db' = Some (t\<lparr> linhas := linhas t @ [(proximo_rowid t, vals)],
                           seq := proximo_rowid t \<rparr>)"
proof -
  from assms(2) obtain vals where b: "bind_params (parametros d) = Inr vals"
    and i: "insert_into colunas_insert vals (Some t) = Inr db'"
    by (auto simp: inserir_linha_def prepare_insert_programa[OF assms(1)] bindE_eq_Inr)
  have l: "length vals = 13"
    using bind_params_length[OF b] by (simp add: parametros_length)
  from i show ?thesis
    unfolding insert_into_programa[OF assms(1) l] using b l
    by (auto split: if_splits)
qed

lemma inserir_linha_None: "inserir_linha d None = Inr db' \<Longrightarrow> False"
  by (simp add: inserir_linha_def prepare_statement_def bindE_Inl)

subsection \<open>The invariant holds in every reachable database\<close>

lemma inv_tabela_inserir:
  assumes "inv_tabela t" and "length vals = 13" and "vals ! 0 \<noteq> SNull"
  shows "inv_tabela (t\<lparr> linhas := linhas t @ [(proximo_rowid t, vals)],
                        seq := proximo_rowid t \<rparr>)"
proof -
  have "sorted_wrt (<) (map fst (linhas t) @ [proximo_rowid t])"
    using assms(1) rowid_novo[of _ t] by (auto simp: inv_tabela_def sorted_wrt_append)
  moreover have "\<forall>r \<in> set (linhas t). fst r \<le> proximo_rowid t"
    using rowid_novo[of _ t] by (auto intro: less_imp_le)
  ultimately show ?thesis
    using assms by (auto simp: inv_tabela_def)
qed

lemma alcancavel_inv: "alcancavel db \<Longrightarrow> inv_banco db"
proof (induction rule: alcancavel.induct)
  case inicial
  show ?case by (simp add: inv_banco_def)
next
  case (criar db)
  show ?case
  proof (cases db)
    case None
    then show ?thesis
      by (simp add: inv_banco_def create_table_if_not_exists_def inv_tabela_def)
  next
    case (Some t)
    with criar.IH show ?thesis
      by (simp add: inv_banco_def create_table_if_not_exists_def)
  qed
next
  case (inserir db d db')
  show ?case
  proof (cases db)
    case None
    with inserir.hyps(2) show ?thesis by (auto dest: inserir_linha_None)
  next
    case (Some t)
    with inserir.IH have it: "inv_tabela t" by (simp add: inv_banco_def)
    then have c: "colunas t = colunas_dados_clima" by (simp add: inv_tabela_def)
    from inserir_linha_Inr[OF c] inserir.hyps(2) Some obtain vals
      where "length vals = 13" "vals ! 0 \<noteq> SNull"
        "db' = Some (t\<lparr> linhas := linhas t @ [(proximo_rowid t, vals)],
                        seq := proximo_rowid t \<rparr>)"
      by blast
    with inv_tabela_inserir[OF it] show ?thesis by (simp add: inv_banco_def)
  qed
qed

lemma alcancavel_inv_tabela: "alcancavel (Some t) \<Longrightarrow> inv_tabela t"
  using alcancavel_inv[of "Some t"] by (simp add: inv_banco_def)

subsection \<open>The query on the table of the program\<close>

lemma projetar_consulta:
  assumes "length r = 13"
  shows "projetar colunas_dados_clima [''cidade'', ''temperatura'', ''descricao'', ''data_hora''] r
         = [r ! 0, r ! 2, r ! 8, r ! 11]"
proof -
  from lista_13[OF assms] obtain a0 a1 a2 a3 a4 a5 a6 a7 a8 a9 a10 a11 a12
    where v: "r = [a0, a1, a2, a3, a4, a5, a6, a7, a8, a9, a10, a11, a12]" by blast
  show ?thesis
    unfolding v by (simp add: projetar_def colunas_dados_clima_def col_def)
qed

lemma nomes_consulta:
  "set [''cidade'', ''temperatura'', ''descricao'', ''data_hora'']
     \<subseteq> set (map nome colunas_dados_clima)"
  by (simp add: colunas_dados_clima_def col_def)

lemma select_inv:
  assumes "inv_tabela t"
  shows "select_order_by_id_desc [''cidade'', ''temperatura'', ''descricao'', ''data_hora''] n (Some t)
         = Inr (if n < 0 then rev (map campos_consulta (linhas t))
                else take (nat n) (rev (map campos_consulta (linhas t))))"
proof -
  from assms have c: "colunas t = colunas_dados_clima"
    and s: "sorted_wrt (<) (map fst (linhas t))"
    and l: "\<forall>r \<in> set (linhas t). length (snd r) = 13"
    by (auto simp: inv_tabela_def)
  have "sorted (map fst (linhas t))"
    using s by (rule sorted_wrt_mono_rel[rotated]) simp
  then have o: "sort_key fst (linhas t) = linhas t" by (rule sort_key_id_if_sorted)
  have p: "projetar colunas_dados_clima
             [''cidade'', ''temperatura'', ''descricao'', ''data_hora''] (snd r)
           = campos_consulta r" if "r \<in> set (linhas t)" for r
    using that l by (simp add: projetar_consulta campos_consulta_def)
  have m: "map (\<lambda>r. projetar colunas_dados_clima
                 [''cidade'', ''temperatura'', ''descricao'', ''data_hora''] (snd r)) (linhas t)
           = map campos_consulta (linhas t)"
    by (rule map_cong[OF refl]) (rule p)
  have q: "map (\<lambda>r. projetar colunas_dados_clima
                 [''cidade'', ''temperatura'', ''descricao'', ''data_hora''] (snd r))
             (rev (linhas t))
           = rev (map campos_consulta (linhas t))"
    by (simp only: rev_map[symmetric] m)
  have "select_order_by_id_desc [''cidade'', ''temperatura'', ''descricao'', ''data_hora''] n (Some t)
        = Inr (map (\<lambda>r. projetar colunas_dados_clima
                 [''cidade'', ''temperatura'', ''descricao'', ''data_hora''] (snd r))
                 (if n < 0 then rev (linhas t) else take (nat n) (rev (linhas t))))"
    unfolding select_order_by_id_desc_def
    by (simp only: option.case c nomes_consulta o Let_def not_True_eq_False if_False)
  then show ?thesis
    by (simp only: if_distrib[of "map _"] take_map[symmetric] q)
qed

lemma registros_recentes_inv:
  assumes "inv_tabela t" and "0 \<le> n" and "n < 2 ^ 63"
  shows "registros_recentes n (Some t) = Inr (take (nat n) (rev (map campos_consulta (linhas t))))"
proof -
  have "colunas t = colunas_dados_clima" using assms(1) by (simp add: inv_tabela_def)
  then have "prepare_statement [''cidade'', ''temperatura'', ''descricao'', ''data_hora'']
               (Some t) = Inr ()"
    using nomes_consulta by (simp add: prepare_statement_def)
  with select_inv[OF assms(1)] assms(2,3) show ?thesis
    by (simp add: registros_recentes_def cabe_int64_def bindE_Inr)
qed

subsection \<open>The sample tables are reachable\<close>

lemma bind_params_leitura: "bind_params (parametros (leitura c)) = Inr (linha_de c)"
  by (simp add: parametros_def leitura_def linha_de_def bindE_def)

lemma linha_de_length: "length (linha_de c) = 13"
  by (simp add: linha_de_def)

lemma inserir_leitura:
  assumes "colunas t = colunas_dados_clima" and "cabe_int64 (proximo_rowid t)"
  shows "inserir_linha (leitura c) (Some t) =
     Inr (Some (t\<lparr> linhas := linhas t @ [(proximo_rowid t, linha_de c)],
                    seq := proximo_rowid t \<rparr>))"
  using assms
  by (simp add: inserir_linha_def prepare_insert_programa[OF assms(1)] bind_params_leitura
      bindE_Inr insert_into_programa[OF assms(1) linha_de_length])
     (simp add: linha_de_def)

lemma alcancavel_vazia: "alcancavel (Some tabela_vazia)"
  using alcancavel.criar[OF alcancavel.inicial]
  by (simp add: create_table_if_not_exists_def tabela_vazia_def)

lemma alcancavel_abc: "alcancavel (Some tabela_abc)"
proof -
  have a: "inserir_linha (leitura ''A'') (Some tabela_vazia) = Inr (Some tabela_a)"
    by (subst inserir_leitura)
      (simp_all add: proximo_rowid_def cabe_int64_def tabela_a_def tabela_vazia_def)
  have b: "inserir_linha (leitura ''B'') (Some tabela_a) = Inr (Some tabela_ab)"
    by (subst inserir_leitura)
      (simp_all add: proximo_rowid_def cabe_int64_def tabela_a_def tabela_ab_def)
  have c: "inserir_linha (leitura ''C'') (Some tabela_ab) = Inr (Some tabela_abc)"
    by (subst inserir_leitura)
      (simp_all add: proximo_rowid_def cabe_int64_def tabela_abc_def tabela_ab_def)
  show ?thesis
    by (rule alcancavel.inserir[OF alcancavel.inserir[OF alcancavel.inserir[OF
          alcancavel_vazia a] b] c])
qed

subsection \<open>The client and the loop body\<close>

lemma obter_dados_clima_200:
  assumes "http w (length (pedidos s)) (montar_url c k) = Resposta 200 (Some v)"
  shows "obter_dados_clima w c k s =
     (Inr v, s\<lparr> saida := saida s @ [Requisitando c, DadosObtidos 200],
                pedidos := pedidos s @ [montar_url c k],
         enviados := enviados s @ [prepare_url (montar_url c k)] \<rparr>)"
  using assms
  by (simp add: obter_dados_clima_def requests_get_def imprimir_def response_json_def Let_def)

text \<open>
  The outcomes on which the client returns None: no response in time, a failure of the
  transport, a body that is not JSON, and a status other than 200 with a JSON object as body.
\<close>

lemma obter_dados_clima_ausente:
  assumes "http w (length (pedidos s)) (montar_url c k) = r"
    and "r = SemResposta \<or> (\<exists>m. r = FalhaTransporte m) \<or> (\<exists>st. r = Resposta st None) \<or>
         (\<exists>st kvs. r = Resposta st (Some (PDict kvs)) \<and> st \<noteq> 200)"
  shows "fst (obter_dados_clima w c k s) = Inr PNone \<and>
         banco (snd (obter_dados_clima w c k s)) = banco s"
  using assms
  by (auto simp: obter_dados_clima_def requests_get_def imprimir_def response_json_def
      obter_dados_clima_except_def bindE_def Let_def)

text \<open>When the client returns None, the loop body writes no row and raises nothing.\<close>

lemma main_corpo_sem_dados:
  assumes "obter_dados_clima w c k (imprimir [Processando c] s) = (Inr PNone, s1)"
  shows "main_corpo w k c s = (Inr (), imprimir [LinhaEmBranco] s1)"
  using assms by (simp add: main_corpo_def)

lemma inserir_linha_programa:
  assumes "colunas t = colunas_dados_clima" and "bind_params (parametros d) = Inr vals"
  shows "inserir_linha d (Some t) =
     (if vals ! 0 = SNull then Inl IntegrityError
      else if \<not> cabe_int64 (proximo_rowid t) then Inl OperationalError
      else Inr (Some (t\<lparr> linhas := linhas t @ [(proximo_rowid t, vals)],
                         seq := proximo_rowid t \<rparr>)))"
proof -
  have l: "length vals = 13"
    using bind_params_length[OF assms(2)] by (simp add: parametros_length)
  show ?thesis
    by (simp only: inserir_linha_def prepare_insert_programa[OF assms(1)] assms(2) bindE_Inr
        insert_into_programa[OF assms(1) l])
qed

lemma bind_params_cidade:
  "bind_params (parametros d) = Inr vals \<Longrightarrow> bind_param (cidade d) = Inr (vals ! 0)"
  unfolding parametros_def by (rule bind_params_hd)

lemma projetar_cidade:
  assumes "length r = 13"
  shows "projetar colunas_dados_clima [''cidade''] r = [r ! 0]"
proof -
  from lista_13[OF assms] obtain a0 a1 a2 a3 a4 a5 a6 a7 a8 a9 a10 a11 a12
    where v: "r = [a0, a1, a2, a3, a4, a5, a6, a7, a8, a9, a10, a11, a12]" by blast
  show ?thesis
    unfolding v by (simp add: projetar_def colunas_dados_clima_def col_def)
qed


subsection \<open>The sample inputs\<close>

lemma estado_criado_simps:
  "banco estado_criado = Some tabela_vazia" "pedidos estado_criado = []"
  "saida estado_criado = [BancoCriado]" "aberturas estado_criado = 1" "fechos estado_criado = 0"
  by (simp_all add: estado_criado_def criar_banco_dados_def estado_inicial_def imprimir_def
      create_table_if_not_exists_def tabela_vazia_def)

lemma estruturar_london:
  "estruturar_dados ''2024-01-01 12:00:00'' (PDict campos_london) = Inr leitura_london"
  by (simp add: estruturar_dados_def campos_london_def sub_get_def bindE_def leitura_london_def)

lemma bind_london: "bind_params (parametros leitura_london) = Inr linha_london"
  by (simp add: parametros_def leitura_london_def linha_london_def bindE_def cabe_int64_def)

lemma estruturar_sem_nome:
  "estruturar_dados ''2024-01-01 12:00:00'' (PDict campos_sem_nome) = Inr leitura_sem_nome"
  by (simp add: estruturar_dados_def campos_sem_nome_def sub_get_def bindE_def
      leitura_sem_nome_def)

lemma leitura_sem_nome_campos:
  "cidade leitura_sem_nome = PNone" "pais leitura_sem_nome = PNone"
  "temperatura leitura_sem_nome = PNone" "sensacao_termica leitura_sem_nome = PNone"
  "temp_minima leitura_sem_nome = PNone" "temp_maxima leitura_sem_nome = PNone"
  "pressao leitura_sem_nome = PNone" "umidade leitura_sem_nome = PNone"
  "descricao leitura_sem_nome = PStr ''nublado''" "velocidade_vento leitura_sem_nome = PNone"
  "nuvens leitura_sem_nome = PNone" "data_hora leitura_sem_nome = PStr ''2024-01-01 12:00:00''"
  by (simp_all add: leitura_sem_nome_def)

lemma bind_sem_nome:
  "bind_params (parametros leitura_sem_nome) =
     Inr [SNull, SNull, SNull, SNull, SNull, SNull, SNull, SNull, SText ''nublado'', SNull,
          SNull, SText ''2024-01-01 12:00:00'', SNull]"
  by (simp add: parametros_def leitura_sem_nome_def bindE_def)

lemma inserir_sem_nome: "inserir_linha leitura_sem_nome (Some tabela_vazia) = Inl IntegrityError"
  by (simp add: inserir_linha_programa[OF _ bind_sem_nome] tabela_vazia_def)

lemma main_corpo_sem_nome:
  assumes "banco s = Some tabela_vazia"
  shows "main_corpo mundo_sem_nome k c s =
     (Inl IntegrityError,
      s\<lparr> saida := saida s @
            [Processando c, Requisitando c, DadosObtidos 200,
             Separador, Titulo PNone PNone, Separador,
             Campo ''Temperatura'' [PNone], Campo ''Sensacao Termica'' [PNone],
             Campo ''Min/Max'' [PNone, PNone], Campo ''Umidade'' [PNone],
             Campo ''Pressao'' [PNone], Campo ''Descricao'' [PStr ''nublado''],
             Campo ''Velocidade do Vento'' [PNone], Campo ''Nebulosidade'' [PNone],
             Campo ''Data/Hora da Consulta'' [PStr ''2024-01-01 12:00:00''], Separador],
         pedidos := pedidos s @ [montar_url c k],
         enviados := enviados s @ [prepare_url (montar_url c k)] \<rparr>)"
proof -
  have h: "http mundo_sem_nome (length (pedidos (imprimir [Processando c] s))) (montar_url c k)
             = Resposta 200 (Some (PDict campos_sem_nome))"
    by (simp add: mundo_sem_nome_def mundo_constante_def carga_sem_nome_def)
  have e: "estruturar_dados (relogio mundo_sem_nome n) (PDict campos_sem_nome)
             = Inr leitura_sem_nome" for n
    by (simp add: mundo_sem_nome_def mundo_constante_def estruturar_sem_nome)
  have t: "campos_sem_nome \<noteq> []" by (simp add: campos_sem_nome_def)
  show ?thesis
    unfolding main_corpo_def obter_dados_clima_200[OF h]
    by (simp add: e t exibir_dados_formatados_def inserir_dados_banco_def imprimir_def
        assms inserir_sem_nome Let_def leitura_sem_nome_campos)
qed

lemma main_corpo_404:
  "main_corpo mundo_404 k c s =
     (Inl AttributeError,
      s\<lparr> saida := saida s @ [Processando c, Requisitando c, ErroStatus 404],
         pedidos := pedidos s @ [montar_url c k],
         enviados := enviados s @ [prepare_url (montar_url c k)] \<rparr>)"
  by (simp add: main_corpo_def obter_dados_clima_def requests_get_def mundo_404_def
      mundo_constante_def imprimir_def response_json_def bindE_def obter_dados_clima_except_def
      Let_def)

lemma api_key_nao_vazia: "api_key_embutida \<noteq> []"
  by (simp add: api_key_embutida_def)

lemma main_try_inicio:
  "main_try w s =
     (case main_laco w api_key_embutida cidades
             (criar_banco_dados (imprimir [ApiKeyCarregada] s)) of
        (Inl e, s2) \<Rightarrow> (Inl e, s2)
      | (Inr u, s2) \<Rightarrow>
          (case consultar_dados_banco 10 s2 of
             (Inl e, s3) \<Rightarrow> (Inl e, s3)
           | (Inr u', s3) \<Rightarrow>
               (Inr (), imprimir [Concluido, ArquivoBanco]
                          (s3\<lparr> fechos := fechos s3 + 1 \<rparr>))))"
  by (simp add: main_try_def carregar_configuracoes_def api_key_nao_vazia)

text \<open>
  A run in which no request is answered in time: each of the five cities is requested, no row
  is written, and the connection is opened once and closed once.
\<close>

lemma main_corpo_sem_resposta:
  "main_corpo (mundo_constante SemResposta) k c s =
     (Inr (), s\<lparr> saida := saida s @ [Processando c, Requisitando c, ErroTimeout, LinhaEmBranco],
                pedidos := pedidos s @ [montar_url c k],
         enviados := enviados s @ [prepare_url (montar_url c k)] \<rparr>)"
  by (simp add: main_corpo_def obter_dados_clima_def requests_get_def mundo_constante_def
      imprimir_def obter_dados_clima_except_def Let_def)

lemma main_sem_resposta:
  "pedidos (main (mundo_constante SemResposta) (estado_inicial None))
     = map (\<lambda>c. montar_url c api_key_embutida) cidades \<and>
   banco (main (mundo_constante SemResposta) (estado_inicial None)) = Some tabela_vazia \<and>
   aberturas (main (mundo_constante SemResposta) (estado_inicial None)) = 1 \<and>
   fechos (main (mundo_constante SemResposta) (estado_inicial None)) = 1"
  by (simp add: main_def main_try_inicio cidades_def main_corpo_sem_resposta
      consultar_dados_banco_def registros_recentes_def prepare_statement_def bindE_def
      cabe_int64_def select_order_by_id_desc_def criar_banco_dados_def create_table_if_not_exists_def
      imprimir_def estado_inicial_def tabela_vazia_def colunas_dados_clima_def col_def Let_def)

subsection \<open>The URL of the request\<close>

text \<open>Every URL that the client builds is a URL of the endpoint.\<close>

lemma montar_url_endpoint: "take (Suc (length endpoint)) (montar_url c k) = endpoint @ ''?''"
  by (simp add: montar_url_def endpoint_def)

lemma url_sao_paulo:
  "prepare_url (montar_url ''Sao Paulo'' api_key_embutida) =
     ''https://api.openweathermap.org/data/2.5/weather?q=Sao%20Paulo&appid=3a5eb8cc097c4eb15bf47deb31c0f8a6&units=metric&lang=pt_br''"
  by code_simp

lemma url_london:
  "prepare_url (montar_url ''London'' api_key_embutida) = montar_url ''London'' api_key_embutida"
  by code_simp

section \<open>Properties\<close>

text \<open>
  C1, as amended. A successful fetch whose payload is a non-empty JSON object that
  normalizes without an exception, has a text as \<^verbatim>\<open>name\<close> and a text as description, and
  whose fields SQLite can bind, on a table that the program made and that still has a row id
  to give: the loop body ends normally and the table is the one before with exactly one row
  appended, under a row id that no earlier row has, and the city of the row is the payload's
  \<^verbatim>\<open>name\<close>.
\<close>

theorem main_corpo_sucesso:
  assumes "http w (length (pedidos s)) (montar_url c k) = Resposta 200 (Some (PDict kvs))"
    and "kvs \<noteq> []"
    and "estruturar_dados (relogio w (Suc (length (pedidos s)))) (PDict kvs) = Inr d"
    and "map_of kvs ''name'' = Some (PStr nome_api)"
    and "descricao d = PStr desc"
    and "bind_params (parametros d) = Inr vals"
    and "banco s = Some t" and "alcancavel (Some t)" and "cabe_int64 (proximo_rowid t)"
  shows "fst (main_corpo w k c s) = Inr () \<and>
     banco (snd (main_corpo w k c s)) =
       Some (t\<lparr> linhas := linhas t @ [(proximo_rowid t, vals)], seq := proximo_rowid t \<rparr>) \<and>
     projetar colunas_dados_clima [''cidade''] vals = [SText nome_api] \<and>
     proximo_rowid t \<notin> fst ` set (linhas t)"
proof -
  have c: "colunas t = colunas_dados_clima"
    using alcancavel_inv_tabela[OF assms(8)] by (simp add: inv_tabela_def)
  have cid: "cidade d = PStr nome_api"
    using estruturar_dados_cidade[OF assms(3)] assms(4) by (simp add: valor_ou_nulo_def)
  have v0: "vals ! 0 = SText nome_api"
    using bind_params_cidade[OF assms(6)] cid by simp
  have l: "length vals = 13"
    using bind_params_length[OF assms(6)] by (simp add: parametros_length)
  have ins: "inserir_linha d (Some t) =
     Inr (Some (t\<lparr> linhas := linhas t @ [(proximo_rowid t, vals)], seq := proximo_rowid t \<rparr>))"
    by (simp add: inserir_linha_programa[OF c assms(6)] v0 assms(9))
  have h: "http w (length (pedidos (imprimir [Processando c] s))) (montar_url c k)
           = Resposta 200 (Some (PDict kvs))"
    using assms(1) by (simp add: imprimir_def)
  have m: "fst (main_corpo w k c s) = Inr ()"
    unfolding main_corpo_def obter_dados_clima_200[OF h]
    using assms(2,3,5,7) ins
    by (simp add: imprimir_def exibir_dados_formatados_def inserir_dados_banco_def Let_def)
  have b: "banco (snd (main_corpo w k c s)) =
       Some (t\<lparr> linhas := linhas t @ [(proximo_rowid t, vals)], seq := proximo_rowid t \<rparr>)"
    unfolding main_corpo_def obter_dados_clima_200[OF h]
    using assms(2,3,5,7) ins
    by (simp add: imprimir_def exibir_dados_formatados_def inserir_dados_banco_def Let_def)
  have p: "projetar colunas_dados_clima [''cidade''] vals = [SText nome_api]"
    by (simp add: projetar_cidade[OF l] v0)
  have n: "proximo_rowid t \<notin> fst ` set (linhas t)"
    using rowid_novo[of _ t] by force
  from m b p n show ?thesis by simp
qed

theorem main_corpo_sucesso_witness:
  "http mundo_london (length (pedidos estado_criado)) (montar_url ''London'' api_key_embutida)
     = Resposta 200 (Some (PDict campos_london)) \<and>
   campos_london \<noteq> [] \<and>
   estruturar_dados (relogio mundo_london (Suc (length (pedidos estado_criado))))
      (PDict campos_london) = Inr leitura_london \<and>
   map_of campos_london ''name'' = Some (PStr ''London'') \<and>
   descricao leitura_london = PStr ''light rain'' \<and>
   bind_params (parametros leitura_london) = Inr linha_london \<and>
   banco estado_criado = Some tabela_vazia \<and> alcancavel (Some tabela_vazia) \<and>
   cabe_int64 (proximo_rowid tabela_vazia) \<and>
   fst (main_corpo mundo_london api_key_embutida ''London'' estado_criado) = Inr () \<and>
   banco (snd (main_corpo mundo_london api_key_embutida ''London'' estado_criado))
     = Some \<lparr> colunas = colunas_dados_clima, linhas = [(1, linha_london)], seq = 1 \<rparr> \<and>
   projetar colunas_dados_clima [''cidade''] linha_london = [SText ''London'']"
proof -
  have h1: "http mundo_london (length (pedidos estado_criado))
      (montar_url ''London'' api_key_embutida) = Resposta 200 (Some (PDict campos_london))"
    by (simp add: mundo_london_def mundo_constante_def carga_london_def)
  have h2: "campos_london \<noteq> []" by (simp add: campos_london_def)
  have h3: "estruturar_dados (relogio mundo_london (Suc (length (pedidos estado_criado))))
      (PDict campos_london) = Inr leitura_london"
    by (simp add: mundo_london_def mundo_constante_def estruturar_london)
  have h4: "map_of campos_london ''name'' = Some (PStr ''London'')"
    by (simp add: campos_london_def)
  have h5: "descricao leitura_london = PStr ''light rain''" by (simp add: leitura_london_def)
  have h9: "cabe_int64 (proximo_rowid tabela_vazia)"
    by (simp add: proximo_rowid_def tabela_vazia_def cabe_int64_def)
  note t = main_corpo_sucesso[OF h1 h2 h3 h4 h5 bind_london estado_criado_simps(1)
      alcancavel_vazia h9]
  show ?thesis
    using h1 h2 h3 h4 h5 h9 bind_london estado_criado_simps(1) alcancavel_vazia t
    by (simp add: tabela_vazia_def proximo_rowid_def)
qed

text \<open>
  C1 as stated fails: the client returns the payload without \<^verbatim>\<open>name\<close>, and the loop
  body appends no row, since the NOT NULL constraint of the table rejects the INSERT.
\<close>

theorem main_corpo_sucesso_counterexample:
  "fst (obter_dados_clima mundo_sem_nome ''London'' api_key_embutida
          (imprimir [Processando ''London''] estado_criado)) = Inr carga_sem_nome \<and>
   fst (main_corpo mundo_sem_nome api_key_embutida ''London'' estado_criado)
     = Inl IntegrityError \<and>
   banco (snd (main_corpo mundo_sem_nome api_key_embutida ''London'' estado_criado))
     = banco estado_criado"
proof -
  have h: "http mundo_sem_nome
             (length (pedidos (imprimir [Processando ''London''] estado_criado)))
             (montar_url ''London'' api_key_embutida) = Resposta 200 (Some carga_sem_nome)"
    by (simp add: mundo_sem_nome_def mundo_constante_def)
  show ?thesis
    by (simp add: obter_dados_clima_200[OF h] main_corpo_sem_nome[OF estado_criado_simps(1)])
qed

text \<open>
  C2, as amended. For every JSON object in which each of \<^verbatim>\<open>sys\<close>, \<^verbatim>\<open>main\<close>,
  \<^verbatim>\<open>wind\<close> and \<^verbatim>\<open>clouds\<close> is absent or an object, and \<^verbatim>\<open>weather\<close> is absent or
  an array that starts with an object, \<open>estruturar_dados\<close> raises nothing, and every field
  but the local timestamp is the value at its source path, or None when the payload does not
  have the path.
\<close>

theorem estruturar_dados_total:
  assumes "bem_formada kvs"
  shows "estruturar_dados agora (PDict kvs) =
     Inr \<lparr> cidade = valor_ou_nulo (caminho [Chave ''name''] (PDict kvs)),
           pais = valor_ou_nulo (caminho [Chave ''sys'', Chave ''country''] (PDict kvs)),
           temperatura = valor_ou_nulo (caminho [Chave ''main'', Chave ''temp''] (PDict kvs)),
           sensacao_termica =
             valor_ou_nulo (caminho [Chave ''main'', Chave ''feels_like''] (PDict kvs)),
           temp_minima =
             valor_ou_nulo (caminho [Chave ''main'', Chave ''temp_min''] (PDict kvs)),
           temp_maxima =
             valor_ou_nulo (caminho [Chave ''main'', Chave ''temp_max''] (PDict kvs)),
           pressao = valor_ou_nulo (caminho [Chave ''main'', Chave ''pressure''] (PDict kvs)),
           umidade = valor_ou_nulo (caminho [Chave ''main'', Chave ''humidity''] (PDict kvs)),
           descricao =
             valor_ou_nulo
               (caminho [Chave ''weather'', Indice 0, Chave ''description''] (PDict kvs)),
           velocidade_vento =
             valor_ou_nulo (caminho [Chave ''wind'', Chave ''speed''] (PDict kvs)),
           nuvens = valor_ou_nulo (caminho [Chave ''clouds'', Chave ''all''] (PDict kvs)),
           data_hora = PStr agora,
           timestamp_api = valor_ou_nulo (caminho [Chave ''dt''] (PDict kvs)) \<rparr>"
proof -
  from assms have o: "objeto_ou_ausente kvs ''sys''" "objeto_ou_ausente kvs ''main''"
    "objeto_ou_ausente kvs ''wind''" "objeto_ou_ausente kvs ''clouds''"
    and l: "lista_de_objeto_ou_ausente kvs ''weather''"
    by (simp_all add: bem_formada_def)
  show ?thesis
    unfolding estruturar_dados_def
    by (simp only: sub_get_caminho[OF o(1)] sub_get_caminho[OF o(2)] sub_get_caminho[OF o(3)]
        sub_get_caminho[OF o(4)] weather_caminho[OF l] topo_caminho bindE_Inr)
qed

theorem estruturar_dados_total_witness:
  "bem_formada [] \<and>
   estruturar_dados ''2024-01-01 12:00:00'' (PDict []) =
     Inr \<lparr> cidade = PNone, pais = PNone, temperatura = PNone, sensacao_termica = PNone,
           temp_minima = PNone, temp_maxima = PNone, pressao = PNone, umidade = PNone,
           descricao = PNone, velocidade_vento = PNone, nuvens = PNone,
           data_hora = PStr ''2024-01-01 12:00:00'', timestamp_api = PNone \<rparr>"
proof -
  have b: "bem_formada []"
    by (simp add: bem_formada_def objeto_ou_ausente_def lista_de_objeto_ou_ausente_def)
  show ?thesis
    using b estruturar_dados_total[OF b, of "''2024-01-01 12:00:00''"]
    by (simp add: valor_ou_nulo_def)
qed

text \<open>
  C2 as stated fails: on the JSON object \<^verbatim>\<open>{"sys": "GB"}\<close>, in which a present key has a
  degenerate shape, \<open>estruturar_dados\<close> raises AttributeError.
\<close>

theorem estruturar_dados_total_counterexample:
  "estruturar_dados ''2024-01-01 12:00:00'' (PDict [(''sys'', PStr ''GB'')]) = Inl AttributeError"
  by (simp add: estruturar_dados_def sub_get_def bindE_def)

text \<open>
  C3, at the failing input. The first city is answered 404 with the JSON text
  \<^verbatim>\<open>"Not Found"\<close>: the exception that leaves the client ends the loop, the run makes this
  one request and none for the four cities that follow, and \<open>main\<close> reports an unexpected
  error.
\<close>

theorem main_aborta_404:
  "pedidos (main mundo_404 (estado_inicial None)) = [montar_url ''London'' api_key_embutida] \<and>
   saida (main mundo_404 (estado_inicial None)) =
     [Inicio, ApiKeyCarregada, BancoCriado, Processando ''London'', Requisitando ''London'',
      ErroStatus 404, ErroInesperado AttributeError, Fim]"
  by (simp add: main_def main_try_inicio cidades_def main_corpo_404 criar_banco_dados_def
      imprimir_def estado_inicial_def)

text \<open>
  C4, at the failing input. The first city is answered 200 with the payload without
  \<^verbatim>\<open>name\<close>: the INSERT raises IntegrityError, \<open>main\<close> reports a database error, and the
  connection that was opened once is closed zero times.
\<close>

theorem main_nao_fecha:
  "aberturas (main mundo_sem_nome (estado_inicial None)) = 1 \<and>
   fechos (main mundo_sem_nome (estado_inicial None)) = 0 \<and>
   saida (main mundo_sem_nome (estado_inicial None)) =
     [Inicio, ApiKeyCarregada, BancoCriado,
      Processando ''London'', Requisitando ''London'', DadosObtidos 200,
      Separador, Titulo PNone PNone, Separador,
      Campo ''Temperatura'' [PNone], Campo ''Sensacao Termica'' [PNone],
      Campo ''Min/Max'' [PNone, PNone], Campo ''Umidade'' [PNone],
      Campo ''Pressao'' [PNone], Campo ''Descricao'' [PStr ''nublado''],
      Campo ''Velocidade do Vento'' [PNone], Campo ''Nebulosidade'' [PNone],
      Campo ''Data/Hora da Consulta'' [PStr ''2024-01-01 12:00:00''], Separador,
      ErroBanco IntegrityError, Fim]"
proof -
  let ?s = "criar_banco_dados (imprimir [ApiKeyCarregada] (imprimir [Inicio] (estado_inicial None)))"
  have b: "banco ?s = Some tabela_vazia"
    by (simp add: criar_banco_dados_def imprimir_def estado_inicial_def
        create_table_if_not_exists_def tabela_vazia_def)
  show ?thesis
    by (simp add: main_def main_try_inicio cidades_def main_corpo_sem_nome[OF b])
      (simp add: criar_banco_dados_def imprimir_def estado_inicial_def)
qed

text \<open>
  C5, as amended. For every table that the program can produce and every limit \<open>n\<close> with
  \<open>0 \<le> n < 2 ^ 63\<close>, the query raises nothing and returns the first \<open>n\<close> rows of the table
  read from the newest insert to the oldest: at most \<open>n\<close> rows, all the rows when \<open>n\<close> is
  not below their number, and no row for an empty table.
\<close>

theorem consulta_recentes:
  assumes "alcancavel (Some t)" and "banco s = Some t" and "0 \<le> n" and "n < 2 ^ 63"
  shows "registros_recentes n (banco s)
           = Inr (take (nat n) (rev (map campos_consulta (linhas t)))) \<and>
     length (take (nat n) (rev (map campos_consulta (linhas t)))) \<le> nat n \<and>
     (int (length (linhas t)) \<le> n \<longrightarrow>
        registros_recentes n (banco s) = Inr (rev (map campos_consulta (linhas t)))) \<and>
     (linhas t = [] \<longrightarrow> registros_recentes n (banco s) = Inr []) \<and>
     fst (consultar_dados_banco n s) = Inr ()"
proof -
  have r: "registros_recentes n (banco s)
            = Inr (take (nat n) (rev (map campos_consulta (linhas t))))"
    using registros_recentes_inv[OF alcancavel_inv_tabela[OF assms(1)] assms(3,4)] assms(2)
    by simp
  have "fst (consultar_dados_banco n s) = Inr ()"
    by (simp add: consultar_dados_banco_def r)
  with r show ?thesis by auto
qed

text \<open>The scenario: after A, B and C were inserted in this order, limit 2 yields C, then B.\<close>

theorem consulta_recentes_witness:
  "alcancavel (Some tabela_abc) \<and> banco (estado_inicial (Some tabela_abc)) = Some tabela_abc \<and>
   (0::int) \<le> 2 \<and> (2::int) < 2 ^ 63 \<and>
   registros_recentes 2 (banco (estado_inicial (Some tabela_abc))) =
     Inr [ [SText ''C'', SNull, SNull, SText ''2024-01-01 12:00:00''],
          [SText ''B'', SNull, SNull, SText ''2024-01-01 12:00:00'']] \<and>
   fst (consultar_dados_banco 2 (estado_inicial (Some tabela_abc))) = Inr ()"
proof -
  have b: "banco (estado_inicial (Some tabela_abc)) = Some tabela_abc"
    by (simp add: estado_inicial_def)
  show ?thesis
    using alcancavel_abc b consulta_recentes[OF alcancavel_abc b, of 2]
    by (simp add: tabela_abc_def campos_consulta_def linha_de_def)
qed

text \<open>
  C5 as stated fails: the limit \<open>2 ^ 63\<close> is not negative, and binding it to the statement
  raises OverflowError.
\<close>

theorem consulta_recentes_counterexample:
  "alcancavel (Some tabela_abc) \<and> (0::int) \<le> 2 ^ 63 \<and>
   registros_recentes (2 ^ 63) (Some tabela_abc) = Inl OverflowError \<and>
   fst (consultar_dados_banco (2 ^ 63) (estado_inicial (Some tabela_abc))) = Inl OverflowError"
proof -
  have p: "prepare_statement [''cidade'', ''temperatura'', ''descricao'', ''data_hora'']
             (Some tabela_abc) = Inr ()"
    using nomes_consulta by (simp add: prepare_statement_def tabela_abc_def)
  show ?thesis
    using alcancavel_abc
    by (simp add: registros_recentes_def p bindE_Inr cabe_int64_def consultar_dados_banco_def
        estado_inicial_def)
qed

text \<open>
  C6, at the failing input. The response has status 404 and the JSON text
  \<^verbatim>\<open>"Not Found"\<close> as body: reading the message field of a str raises AttributeError, which
  neither \<^verbatim>\<open>except\<close> clause of the client catches, so the exception leaves
  \<open>obter_dados_clima\<close>.
\<close>

theorem obter_dados_clima_escapa:
  "fst (obter_dados_clima mundo_404 ''Atlantis'' api_key_embutida (estado_inicial None))
     = Inl AttributeError"
  by (simp add: obter_dados_clima_def requests_get_def mundo_404_def mundo_constante_def
      estado_inicial_def imprimir_def response_json_def bindE_def obter_dados_clima_except_def
      Let_def)

text \<open>
  C7. Calling \<open>criar_banco_dados\<close> a second time leaves the database as the first call left
  it; a table that exists keeps its columns, its rows and its sequence; where there was no
  table there is one, with the declared columns and no row.
\<close>

theorem criar_banco_dados_idempotente:
  "banco (criar_banco_dados (criar_banco_dados s)) = banco (criar_banco_dados s) \<and>
   (\<forall>t. banco s = Some t \<longrightarrow> banco (criar_banco_dados s) = Some t) \<and>
   (banco s = None \<longrightarrow> banco (criar_banco_dados s) = Some tabela_vazia)"
  by (simp add: criar_banco_dados_def imprimir_def create_table_if_not_exists_def
      tabela_vazia_def split: option.splits)

theorem criar_banco_dados_idempotente_witness:
  "banco (estado_inicial (Some tabela_abc)) = Some tabela_abc \<and>
   banco (criar_banco_dados (estado_inicial (Some tabela_abc))) = Some tabela_abc \<and>
   banco (criar_banco_dados (criar_banco_dados (estado_inicial (Some tabela_abc))))
     = Some tabela_abc \<and>
   banco (estado_inicial None) = None \<and>
   banco (criar_banco_dados (criar_banco_dados (estado_inicial None))) = Some tabela_vazia"
  using criar_banco_dados_idempotente[of "estado_inicial (Some tabela_abc)"]
    criar_banco_dados_idempotente[of "estado_inicial None"]
  by (simp add: estado_inicial_def)

text \<open>
  C8. The payload of the scenario normalizes, without an exception, to the record with
  city London, country GB, temperature 15.0, humidity 80, description light rain, provider
  timestamp 1700000000, and None in feels-like, minimum, maximum, pressure, wind speed and
  cloud cover; the local timestamp is the wall-clock text of the call.
\<close>

theorem estruturar_dados_london:
  "estruturar_dados agora carga_london =
     Inr \<lparr> cidade = PStr ''London'', pais = PStr ''GB'', temperatura = PFloat 15,
           sensacao_termica = PNone, temp_minima = PNone, temp_maxima = PNone,
           pressao = PNone, umidade = PInt 80, descricao = PStr ''light rain'',
           velocidade_vento = PNone, nuvens = PNone, data_hora = PStr agora,
           timestamp_api = PInt 1700000000 \<rparr>"
  by (simp add: estruturar_dados_def carga_london_def campos_london_def sub_get_def bindE_def)




text \<open>
  C10, as amended. The client makes one call of \<^verbatim>\<open>requests.get\<close>, and the URL that it
  hands over is the template with the city and the key put in as they are: a city with a
  space, such as Sao Paulo, is in that URL with its space. The request that the library
  prepares from it has the URL quoted: for Sao Paulo and the key of the program the space is
  sent as \<^verbatim>\<open>%20\<close>.
\<close>

theorem url_entregue_sem_codificacao:
  "pedidos (snd (obter_dados_clima w c k s)) =
     pedidos s @ [''https://api.openweathermap.org/data/2.5/weather?q='' @ c @
                  ''&appid='' @ k @ ''&units=metric&lang=pt_br''] \<and>
   montar_url ''Sao Paulo'' k =
     ''https://api.openweathermap.org/data/2.5/weather?q=Sao Paulo&appid='' @ k @
     ''&units=metric&lang=pt_br'' \<and>
   enviados (snd (obter_dados_clima w c k s)) = enviados s @ [prepare_url (montar_url c k)] \<and>
   prepare_url (montar_url ''Sao Paulo'' api_key_embutida) =
     ''https://api.openweathermap.org/data/2.5/weather?q=Sao%20Paulo&appid=3a5eb8cc097c4eb15bf47deb31c0f8a6&units=metric&lang=pt_br''"
proof -
  have a: "pedidos (snd (obter_dados_clima w c k s)) = pedidos s @ [montar_url c k]"
    by (simp add: obter_dados_clima_def requests_get_def imprimir_def
        obter_dados_clima_except_def Let_def
        split: resultado_http.splits sum.splits prod.splits)
  have b: "enviados (snd (obter_dados_clima w c k s))
             = enviados s @ [prepare_url (montar_url c k)]"
    by (simp add: obter_dados_clima_def requests_get_def imprimir_def
        obter_dados_clima_except_def Let_def
        split: resultado_http.splits sum.splits prod.splits)
  have m: "montar_url c k =
     ''https://api.openweathermap.org/data/2.5/weather?q='' @ c @
     ''&appid='' @ k @ ''&units=metric&lang=pt_br''" for c
    by (simp add: montar_url_def)
  have p: "prepare_url (montar_url ''Sao Paulo'' api_key_embutida) =
     ''https://api.openweathermap.org/data/2.5/weather?q=Sao%20Paulo&appid=3a5eb8cc097c4eb15bf47deb31c0f8a6&units=metric&lang=pt_br''"
    by (rule url_sao_paulo)
  from a b p show ?thesis by (simp add: m)
qed

text \<open>
  C10 as stated fails: the URL of the request that is sent for the city Sao Paulo is not the
  template with the city put in as it is; the space of the city is quoted.
\<close>

theorem url_entregue_sem_codificacao_counterexample:
  "enviados (snd (obter_dados_clima mundo_404 ''Sao Paulo'' api_key_embutida
                    (estado_inicial None))) =
     [''https://api.openweathermap.org/data/2.5/weather?q=Sao%20Paulo&appid=3a5eb8cc097c4eb15bf47deb31c0f8a6&units=metric&lang=pt_br''] \<and>
   ''https://api.openweathermap.org/data/2.5/weather?q=Sao%20Paulo&appid=3a5eb8cc097c4eb15bf47deb31c0f8a6&units=metric&lang=pt_br''
     \<noteq> montar_url ''Sao Paulo'' api_key_embutida"
proof -
  have b: "enviados (snd (obter_dados_clima mundo_404 ''Sao Paulo'' api_key_embutida
                            (estado_inicial None)))
             = [prepare_url (montar_url ''Sao Paulo'' api_key_embutida)]"
    by (simp add: obter_dados_clima_def requests_get_def imprimir_def
        obter_dados_clima_except_def Let_def estado_inicial_def
        split: resultado_http.splits sum.splits prod.splits)
  have n: "''https://api.openweathermap.org/data/2.5/weather?q=Sao%20Paulo&appid=3a5eb8cc097c4eb15bf47deb31c0f8a6&units=metric&lang=pt_br''
     \<noteq> montar_url ''Sao Paulo'' api_key_embutida"
    by (simp add: montar_url_def api_key_embutida_def)
  from b n show ?thesis by (simp add: url_sao_paulo)
qed

end
